theory Spec2Isabelle
  imports Complex_Main "HOL-Library.Word" "HOL-Library.Char_ord" "HOL-Library.List_Lexorder"
begin

section \<open>Python values, dictionaries and strings\<close>

text \<open>
  The bridge exchanges JSON values, as \<open>json.loads\<close> returns them: \<open>None\<close>, booleans,
  integers, finite floats (\<open>PFloat\<close>), the floats \<open>nan\<close> (\<open>PNaN\<close>) and plus or minus
  infinity (\<open>PInf True\<close>, \<open>PInf False\<close>), strings, lists and dictionaries. A Python
  dictionary is an association list, in the insertion order of the source's dictionary
  literals; \<open>d.get(k)\<close> is \<open>map_of d k\<close>. A string is a \<open>char list\<close>, one \<open>char\<close>
  standing for one code point below 256.
\<close>

datatype pyval =
    PNone
  | PBool bool
  | PInt int
  | PFloat rat
  | PNaN
  | PInf bool
  | PStr string
  | PList "pyval list"
  | PDict "(string \<times> pyval) list"

type_synonym pydict = "(string \<times> pyval) list"

type_synonym byte = "8 word"

text \<open>Python truthiness, as \<open>if v:\<close>, \<open>not v\<close> and \<open>v and w\<close> read a value.\<close>

fun truthy :: "pyval \<Rightarrow> bool" where
  "truthy PNone = False"
| "truthy (PBool b) = b"
| "truthy (PInt i) = (i \<noteq> 0)"
| "truthy (PFloat r) = (r \<noteq> 0)"
| "truthy PNaN = True"
| "truthy (PInf b) = True"
| "truthy (PStr s) = (s \<noteq> [])"
| "truthy (PList xs) = (xs \<noteq> [])"
| "truthy (PDict kvs) = (kvs \<noteq> [])"

text \<open>\<open>type(v).__name__\<close>, as Python's error messages print it.\<close>

fun type_name :: "pyval \<Rightarrow> string" where
  "type_name PNone = ''NoneType''"
| "type_name (PBool b) = ''bool''"
| "type_name (PInt i) = ''int''"
| "type_name (PFloat r) = ''float''"
| "type_name PNaN = ''float''"
| "type_name (PInf b) = ''float''"
| "type_name (PStr s) = ''str''"
| "type_name (PList xs) = ''list''"
| "type_name (PDict kvs) = ''dict''"

text \<open>
  \<open>len(v)\<close>: the length of a string, a list or a dictionary; \<open>None\<close> where Python raises
  \<open>TypeError\<close>.
\<close>

fun py_len :: "pyval \<Rightarrow> nat option" where
  "py_len (PStr s) = Some (length s)"
| "py_len (PList xs) = Some (length xs)"
| "py_len (PDict kvs) = Some (length kvs)"
| "py_len v = None"

text \<open>
  \<open>v == w\<close> on values of two different requests. Booleans, integers and floats compare
  by their numeric value, dictionaries regardless of the order of their keys, and \<open>nan\<close>
  is equal to nothing. \<open>canonical\<close> maps equal values to one representative.
\<close>

primrec canonical :: "pyval \<Rightarrow> pyval" where
  "canonical PNone = PNone"
| "canonical (PBool b) = PInt (if b then 1 else 0)"
| "canonical (PInt i) = PInt i"
| "canonical (PFloat r) = (if of_int \<lfloor>r\<rfloor> = r then PInt \<lfloor>r\<rfloor> else PFloat r)"
| "canonical PNaN = PNaN"
| "canonical (PInf b) = PInf b"
| "canonical (PStr s) = PStr s"
| "canonical (PList xs) = PList (map canonical xs)"
| "canonical (PDict kvs) = PDict (sort_key fst (map (map_prod id canonical) kvs))"

primrec has_nan :: "pyval \<Rightarrow> bool" where
  "has_nan PNone = False"
| "has_nan (PBool b) = False"
| "has_nan (PInt i) = False"
| "has_nan (PFloat r) = False"
| "has_nan PNaN = True"
| "has_nan (PInf b) = False"
| "has_nan (PStr s) = False"
| "has_nan (PList xs) = List.member (map has_nan xs) True"
| "has_nan (PDict kvs) = List.member (map snd (map (map_prod id has_nan) kvs)) True"

definition py_eq :: "pyval \<Rightarrow> pyval \<Rightarrow> bool" where
  "py_eq v w = (\<not> has_nan v \<and> \<not> has_nan w \<and> canonical v = canonical w)"

text \<open>\<open>d.get(k)\<close>: the value, or \<open>None\<close> when the key is missing.\<close>

definition dict_get :: "pydict \<Rightarrow> string \<Rightarrow> pyval" where
  "dict_get d k = (case map_of d k of None \<Rightarrow> PNone | Some v \<Rightarrow> v)"

text \<open>\<open>d.get(k, default)\<close>.\<close>

definition dict_get_default :: "pydict \<Rightarrow> string \<Rightarrow> pyval \<Rightarrow> pyval" where
  "dict_get_default d k dflt = (case map_of d k of None \<Rightarrow> dflt | Some v \<Rightarrow> v)"

text \<open>\<open>s.startswith(p)\<close>.\<close>

fun startswith :: "string \<Rightarrow> string \<Rightarrow> bool" where
  "startswith s [] = True"
| "startswith [] (p # ps) = False"
| "startswith (c # cs) (p # ps) = (c = p \<and> startswith cs ps)"

text \<open>\<open>needle in hay\<close> for strings: \<open>needle\<close> is a contiguous substring of \<open>hay\<close>.\<close>

fun str_in :: "string \<Rightarrow> string \<Rightarrow> bool" where
  "str_in needle [] = (needle = [])"
| "str_in needle (c # cs) = (startswith (c # cs) needle \<or> str_in needle cs)"

text \<open>
  \<open>s.lower()\<close> on the ASCII letters; every other character is left as it is (model
  identifiers are ASCII).
\<close>

definition lower_char :: "char \<Rightarrow> char" where
  "lower_char c =
     (case map_of (zip ''ABCDEFGHIJKLMNOPQRSTUVWXYZ'' ''abcdefghijklmnopqrstuvwxyz'') c of
        None \<Rightarrow> c
      | Some l \<Rightarrow> l)"

definition lower :: "string \<Rightarrow> string" where
  "lower s = map lower_char s"

text \<open>
  Python's whitespace among the code points below 256: tab, line feed, vertical tab, form
  feed, carriage return, the four separators 28 to 31, the space, next line (133) and the
  no-break space (160).
\<close>

definition is_space :: "char \<Rightarrow> bool" where
  "is_space c =
     (let n = (of_char c :: nat) in
      (9 \<le> n \<and> n \<le> 13) \<or> (28 \<le> n \<and> n \<le> 32) \<or> n = 133 \<or> n = 160)"

text \<open>\<open>s.strip()\<close>.\<close>

definition strip :: "string \<Rightarrow> string" where
  "strip s = rev (dropWhile is_space (rev (dropWhile is_space s)))"

text \<open>\<open>os.path.basename\<close> (POSIX): what follows the last slash.\<close>

definition basename :: "string \<Rightarrow> string" where
  "basename p = rev (takeWhile (\<lambda>c. c \<noteq> CHR ''/'') (rev p))"

text \<open>A name between single quotes, as Python's messages print a type.\<close>

definition quoted :: "string \<Rightarrow> string" where
  "quoted s = [CHR 0x27] @ s @ [CHR 0x27]"

section \<open>Exceptions and the collaborators outside the repository\<close>

text \<open>An exception: its class name and \<open>str(e)\<close>.\<close>

datatype exn = Exn (exn_class: string) (exn_str: string)

text \<open>
  What the bridge reads of a loaded \<open>TTS\<close> object. \<open>h_language\<close> is the attribute
  \<open>language\<close> (\<open>None\<close>: the object has none). \<open>h_speakers\<close> is the attribute
  \<open>speakers\<close>: \<open>None\<close> when the object has no such attribute, \<open>Some None\<close> when its
  value is Python's \<open>None\<close>, \<open>Some (Some l)\<close> when it is the list \<open>l\<close>.
  A \<open>TTS\<close> object defines neither \<open>__bool__\<close> nor \<open>__len__\<close>, so it is always true.
\<close>

record handle =
  h_id :: nat
  h_language :: "string option"
  h_speakers :: "string list option option"

text \<open>
  The two ways the source constructs a \<open>TTS\<close> object: by the name of a model of the
  catalogue, or by the path of a local model file and whatever was passed as
  \<open>config_path\<close>.
\<close>

datatype tts_source =
    ByName string
  | ByPath string pyval

text \<open>The three ways the source calls \<open>tts_to_file\<close>.\<close>

datatype voice =
    CloneFrom pyval
  | NamedSpeaker string
  | DefaultVoice

type_synonym fs = "string \<rightharpoonup> byte list"

text \<open>
  What the bridge does to the world outside its own fields, in order: the construction of
  a \<open>TTS\<close> object is attempted, the last reference to one is dropped (by rebinding or
  \<open>del\<close>), the accelerator's cache is emptied, the engine is asked to synthesise.
\<close>

datatype event =
    EvAcquire tts_source string
  | EvDropRef nat
  | EvEmptyCache
  | EvTtsToFile nat

text \<open>What \<open>json.loads\<close> does with a line: a value, a \<open>JSONDecodeError\<close> with its
  text, or another exception (a \<open>RecursionError\<close> on deep nesting, a \<open>ValueError\<close> on a
  number of too many digits).\<close>

datatype loaded = Parsed pyval | DecodeError string | OtherError exn

text \<open>
  The environment of one run: the libraries and the interpreter, as the source calls them.
  \<^item> \<open>cuda_available\<close>: \<open>torch.cuda.is_available()\<close>;
  \<^item> \<open>TTS\<close>: \<open>TTS(...).to(device)\<close>, a handle or the exception it raises; the outcome
    may depend on what was attempted before (a download that fails once);
  \<^item> \<open>tts_to_file\<close>: the engine's synthesis into a file, given the text, the voice, the
    language, the file path and the speed as they were passed; it may change the file
    system in any way and may raise;
  \<^item> \<open>empty_cache\<close>: the exception \<open>torch.cuda.empty_cache()\<close> raises, if any;
  \<^item> \<open>list_models\<close>: \<open>ModelManager().list_models()\<close>;
  \<^item> \<open>named_temporary_file\<close>: the name \<open>tempfile.NamedTemporaryFile\<close> chooses, without
    the suffix the caller asks for, or the exception it raises;
  \<^item> \<open>exists_other\<close>: \<open>os.path.exists\<close> on a value that is not a string (a file
    descriptor for an integer, a \<open>TypeError\<close> for most others);
  \<^item> \<open>worker_info\<close>: \<open>str(torch.utils.data.get_worker_info() or "unknown")\<close>;
  \<^item> \<open>format_exc\<close>: \<open>traceback.format_exc()\<close> for the exception being handled;
  \<^item> \<open>time_str\<close>: \<open>str(time.time())\<close>; \<open>py_hash\<close>: \<open>hash\<close> on strings;
  \<^item> \<open>kwargs_error\<close>: the text of the \<open>TypeError\<close> raised when a method is called with
    \<open>**params\<close> that its signature does not accept;
  \<^item> \<open>py_str\<close>: \<open>str(v)\<close> for a value that is not a string;
  \<^item> \<open>json_loads\<close>: \<open>json.loads\<close>.
\<close>

record env =
  cuda_available :: bool
  TTS :: "event list \<Rightarrow> tts_source \<Rightarrow> string \<Rightarrow> exn + handle"
  tts_to_file :: "handle \<Rightarrow> pyval \<Rightarrow> voice \<Rightarrow> pyval \<Rightarrow> string \<Rightarrow> pyval \<Rightarrow> fs \<Rightarrow> exn option \<times> fs"
  empty_cache :: "exn option"
  list_models :: "exn + string list"
  named_temporary_file :: "fs \<Rightarrow> exn + string"
  exists_other :: "pyval \<Rightarrow> exn + bool"
  worker_info :: string
  format_exc :: "exn \<Rightarrow> string"
  time_str :: string
  py_hash :: "string \<Rightarrow> int"
  kwargs_error :: "string \<Rightarrow> pyval \<Rightarrow> string"
  py_str :: "pyval \<Rightarrow> string"
  json_loads :: "string \<Rightarrow> loaded"

record world =
  files :: fs
  events :: "event list"

text \<open>\<open>os.path.exists\<close> on a string; the empty path never exists.\<close>

definition path_exists :: "fs \<Rightarrow> string \<Rightarrow> bool" where
  "path_exists f p = (p \<noteq> [] \<and> f p \<noteq> None)"

text \<open>\<open>os.path.exists\<close> on any value.\<close>

definition os_path_exists :: "env \<Rightarrow> fs \<Rightarrow> pyval \<Rightarrow> exn + bool" where
  "os_path_exists E f v = (case v of PStr p \<Rightarrow> Inr (path_exists f p) | _ \<Rightarrow> exists_other E v)"

definition log_event :: "event \<Rightarrow> world \<Rightarrow> world" where
  "log_event e w = w\<lparr>events := events w @ [e]\<rparr>"

text \<open>\<open>os.unlink\<close> of a file that exists; the file system is taken to carry it out.\<close>

definition unlink :: "string \<Rightarrow> world \<Rightarrow> world" where
  "unlink p w = w\<lparr>files := (files w)(p := None)\<rparr>"

text \<open>\<open>f"{v}"\<close>.\<close>

definition format_value :: "env \<Rightarrow> pyval \<Rightarrow> string" where
  "format_value E v = (case v of PStr s \<Rightarrow> s | _ \<Rightarrow> py_str E v)"

section \<open>The real bridge: \<open>CoquiTTSBridge\<close>\<close>

text \<open>
  The fields of the bridge. Python does not check the annotation \<open>Optional[str]\<close>:
  \<open>current_model_path\<close> holds whatever value was assigned, \<open>PNone\<close> for \<open>None\<close>.
\<close>

record bridge =
  tts_model :: "handle option"
  current_model_path :: pyval
  model_info :: pydict
  device :: string

text \<open>\<open>CoquiTTSBridge.__init__\<close>.\<close>

definition init_bridge :: "env \<Rightarrow> bridge" where
  "init_bridge E =
     \<lparr>tts_model = None, current_model_path = PNone, model_info = [],
      device = (if cuda_available E then ''cuda'' else ''cpu'')\<rparr>"

text \<open>The \<open>speakers\<close> entry of \<open>model_info\<close>: the attribute's value, \<open>[]\<close> without one.\<close>

fun speakers_value :: "string list option option \<Rightarrow> pyval" where
  "speakers_value None = PList []"
| "speakers_value (Some None) = PNone"
| "speakers_value (Some (Some l)) = PList (map PStr l)"

text \<open>The dictionary \<open>load_model\<close> stores in \<open>self.model_info\<close>.\<close>

definition real_model_info :: "env \<Rightarrow> handle \<Rightarrow> string \<Rightarrow> string \<Rightarrow> pydict" where
  "real_model_info E h model_path dev =
     [(''name'', PStr (basename model_path)),
      (''path'', PStr model_path),
      (''device'', PStr dev),
      (''language'', PStr (case h_language h of None \<Rightarrow> ''unknown'' | Some l \<Rightarrow> l)),
      (''loaded_at'', PStr (worker_info E)),
      (''speakers'', speakers_value (h_speakers h)),
      (''use_gpu'', PBool (dev = ''cuda''))]"

text \<open>The \<open>except Exception\<close> branch of \<open>load_model\<close>.\<close>

definition load_failed :: "env \<Rightarrow> exn \<Rightarrow> pydict" where
  "load_failed E e =
     [(''success'', PBool False),
      (''error'', PStr (''Failed to load model: '' @ exn_str e)),
      (''traceback'', PStr (format_exc E e))]"

text \<open>
  The tail of \<open>load_model\<close> from the construction of the \<open>TTS\<close> object on. The
  assignment to \<open>self.tts_model\<close> happens only when the construction returns; it drops the
  reference to the object held before, if any. Nothing is released before the
  construction.
\<close>

definition acquire :: "env \<Rightarrow> tts_source \<Rightarrow> string \<Rightarrow> string \<Rightarrow> world \<times> bridge \<Rightarrow> (world \<times> bridge) \<times> pydict" where
  "acquire E src model_path dev s =
     (let w1 = log_event (EvAcquire src dev) (fst s); b = snd s in
      case TTS E (events (fst s)) src dev of
        Inl e \<Rightarrow> ((w1, b), load_failed E e)
      | Inr h \<Rightarrow>
          (let w2 = (case tts_model b of None \<Rightarrow> w1 | Some old \<Rightarrow> log_event (EvDropRef (h_id old)) w1);
               info = real_model_info E h model_path dev;
               b' = b\<lparr>tts_model := Some h, current_model_path := PStr model_path,
                       model_info := info\<rparr>
           in ((w2, b'),
               [(''success'', PBool True),
                (''message'', PStr (''Model loaded successfully on '' @ dev)),
                (''model_info'', PDict info)])))"

text \<open>
  \<open>config_path and not os.path.exists(config_path)\<close>: whether a configuration file is
  named and missing, or the exception \<open>os.path.exists\<close> raises.
\<close>

definition config_missing :: "env \<Rightarrow> fs \<Rightarrow> pyval \<Rightarrow> exn + bool" where
  "config_missing E f config_path =
     (if \<not> truthy config_path then Inr False
      else (case os_path_exists E f config_path of
              Inl e \<Rightarrow> Inl e
            | Inr ex \<Rightarrow> Inr (\<not> ex)))"

text \<open>
  \<open>CoquiTTSBridge.load_model\<close>. A \<open>model_path\<close> that is not a string has no
  \<open>startswith\<close>: the \<open>AttributeError\<close> is caught like every other exception.
\<close>

definition load_model :: "env \<Rightarrow> pyval \<Rightarrow> pyval \<Rightarrow> pyval \<Rightarrow> pyval \<Rightarrow> world \<times> bridge \<Rightarrow> (world \<times> bridge) \<times> pydict" where
  "load_model E model_path config_path speaker_wav use_gpu s =
     (let dev = (if truthy use_gpu \<and> cuda_available E then ''cuda'' else ''cpu''); b = snd s in
      if tts_model b \<noteq> None \<and> py_eq (current_model_path b) model_path then
        (s, [(''success'', PBool True),
             (''message'', PStr ''Model already loaded''),
             (''model_info'', PDict (model_info b))])
      else
        (case model_path of
           PStr p \<Rightarrow>
             if startswith p ''tts_models/'' then
               acquire E (ByName p) p dev s
             else if \<not> path_exists (files (fst s)) p then
               (s, load_failed E (Exn ''FileNotFoundError'' (''Model file not found: '' @ p)))
             else
               (case config_missing E (files (fst s)) config_path of
                  Inl e \<Rightarrow> (s, load_failed E e)
                | Inr True \<Rightarrow>
                    (s, load_failed E (Exn ''FileNotFoundError''
                          (''Config file not found: '' @ format_value E config_path)))
                | Inr False \<Rightarrow> acquire E (ByPath p config_path) p dev s)
         | _ \<Rightarrow>
             (s, load_failed E (Exn ''AttributeError''
                   (quoted (type_name model_path) @ '' object has no attribute ''
                    @ quoted ''startswith'')))))"

text \<open>The \<open>except Exception\<close> branch of \<open>synthesize_speech\<close>.\<close>

definition synth_failed :: "env \<Rightarrow> exn \<Rightarrow> pydict" where
  "synth_failed E e =
     [(''success'', PBool False),
      (''error'', PStr (''Failed to synthesize speech: '' @ exn_str e)),
      (''traceback'', PStr (format_exc E e))]"

text \<open>The voice without a usable speaker reference: the model's first speaker, if it has
  speakers.\<close>

fun default_voice :: "string list option option \<Rightarrow> voice" where
  "default_voice (Some (Some (sp # sps))) = NamedSpeaker sp"
| "default_voice _ = DefaultVoice"

text \<open>
  The three-way choice of the voice, \<open>speaker_wav and os.path.exists(speaker_wav)\<close>
  first; or the exception \<open>os.path.exists\<close> raises.
\<close>

definition choose_voice :: "env \<Rightarrow> handle \<Rightarrow> pyval \<Rightarrow> fs \<Rightarrow> exn + voice" where
  "choose_voice E h speaker_wav f =
     (if \<not> truthy speaker_wav then Inr (default_voice (h_speakers h))
      else (case os_path_exists E f speaker_wav of
              Inl e \<Rightarrow> Inl e
            | Inr True \<Rightarrow> Inr (CloneFrom speaker_wav)
            | Inr False \<Rightarrow> Inr (default_voice (h_speakers h))))"

text \<open>
  RFC 4648 base64, as \<open>base64.b64encode\<close> computes it: three bytes give four characters
  of the alphabet; a last group of one or two bytes is padded with \<open>=\<close>.
\<close>

definition b64_alphabet :: string where
  "b64_alphabet = ''ABCDEFGHIJKLMNOPQRSTUVWXYZabcdefghijklmnopqrstuvwxyz0123456789+/''"

definition b64_char :: "nat \<Rightarrow> char" where
  "b64_char i = b64_alphabet ! (i mod 64)"

fun b64encode :: "byte list \<Rightarrow> string" where
  "b64encode [] = []"
| "b64encode [a] =
     (let n = unat a * 65536 in
      [b64_char (n div 262144), b64_char (n div 4096), CHR ''='', CHR ''=''])"
| "b64encode [a, b] =
     (let n = unat a * 65536 + unat b * 256 in
      [b64_char (n div 262144), b64_char (n div 4096), b64_char (n div 64), CHR ''=''])"
| "b64encode (a # b # c # rest) =
     (let n = unat a * 65536 + unat b * 256 + unat c in
      [b64_char (n div 262144), b64_char (n div 4096), b64_char (n div 64), b64_char n]
      @ b64encode rest)"

text \<open>
  The body of the inner \<open>try\<close> of \<open>synthesize_speech\<close>, before its \<open>finally\<close>: the voice
  is chosen, the engine writes the file, the bridge reads it back and builds the result.
  \<open>open\<close> raises when the file is not there, \<open>len(text)\<close> when the text has no length.
\<close>

definition synthesize_body :: "env \<Rightarrow> handle \<Rightarrow> pyval \<Rightarrow> pyval \<Rightarrow> pyval \<Rightarrow> pyval \<Rightarrow> string \<Rightarrow> world \<Rightarrow> world \<times> (exn + pydict)" where
  "synthesize_body E h text speaker_wav language speed temp_path w =
     (case choose_voice E h speaker_wav (files w) of
        Inl e \<Rightarrow> (w, Inl e)
      | Inr v \<Rightarrow>
          (let w1 = log_event (EvTtsToFile (h_id h)) w;
               r = tts_to_file E h text v language temp_path speed (files w1);
               w2 = w1\<lparr>files := snd r\<rparr>
           in case fst r of
                Some e \<Rightarrow> (w2, Inl e)
              | None \<Rightarrow>
                  (case files w2 temp_path of
                     None \<Rightarrow>
                       (w2, Inl (Exn ''FileNotFoundError''
                                  (''[Errno 2] No such file or directory: '' @ quoted temp_path)))
                   | Some audio_data \<Rightarrow>
                       (case py_len text of
                          None \<Rightarrow>
                            (w2, Inl (Exn ''TypeError''
                                       (''object of type '' @ quoted (type_name text)
                                        @ '' has no len()'')))
                        | Some n \<Rightarrow>
                            (w2, Inr [(''success'', PBool True),
                                      (''audio_data'', PStr (b64encode audio_data)),
                                      (''audio_length'', PInt (int (length audio_data))),
                                      (''text_length'', PInt (int n)),
                                      (''language'', language),
                                      (''speaker_wav'', speaker_wav)])))))"

text \<open>The \<open>finally\<close> clause: the temporary file is unlinked when it exists.\<close>

definition cleanup :: "string \<Rightarrow> world \<Rightarrow> world" where
  "cleanup temp_path w = (if path_exists (files w) temp_path then unlink temp_path w else w)"

text \<open>
  \<open>CoquiTTSBridge.synthesize_speech\<close>. The temporary file is created empty, under the
  name the library chooses with the suffix \<open>.wav\<close>.
\<close>

definition synthesize_speech :: "env \<Rightarrow> pyval \<Rightarrow> pyval \<Rightarrow> pyval \<Rightarrow> pyval \<Rightarrow> world \<times> bridge \<Rightarrow> (world \<times> bridge) \<times> pydict" where
  "synthesize_speech E text speaker_wav language speed s =
     (case tts_model (snd s) of
        None \<Rightarrow>
          (s, [(''success'', PBool False),
               (''error'', PStr ''No model loaded. Please load a model first.'')])
      | Some h \<Rightarrow>
          (case named_temporary_file E (files (fst s)) of
             Inl e \<Rightarrow> (s, synth_failed E e)
           | Inr stem \<Rightarrow>
               (let temp_path = stem @ ''.wav'';
                    w1 = (fst s)\<lparr>files := (files (fst s))(temp_path \<mapsto> [])\<rparr>;
                    r = synthesize_body E h text speaker_wav language speed temp_path w1;
                    w2 = cleanup temp_path (fst r)
                in case snd r of
                     Inl e \<Rightarrow> ((w2, snd s), synth_failed E e)
                   | Inr res \<Rightarrow> ((w2, snd s), res))))"

text \<open>\<open>CoquiTTSBridge.get_model_info\<close>.\<close>

definition get_model_info :: "world \<times> bridge \<Rightarrow> (world \<times> bridge) \<times> pydict" where
  "get_model_info s =
     (if tts_model (snd s) = None then
        (s, [(''success'', PBool False), (''error'', PStr ''No model loaded'')])
      else
        (s, [(''success'', PBool True), (''model_info'', PDict (model_info (snd s)))]))"

text \<open>
  \<open>CoquiTTSBridge.unload_model\<close>. The three fields are cleared before the cache is
  emptied; when emptying it raises, the \<open>except\<close> branch reports the failure and the
  fields stay cleared.
\<close>

definition unload_model :: "env \<Rightarrow> world \<times> bridge \<Rightarrow> (world \<times> bridge) \<times> pydict" where
  "unload_model E s =
     (case tts_model (snd s) of
        Some h \<Rightarrow>
          (let w1 = log_event (EvDropRef (h_id h)) (fst s);
               b' = (snd s)\<lparr>tts_model := None, current_model_path := PNone, model_info := []\<rparr>
           in if cuda_available E then
                (case empty_cache E of
                   Some e \<Rightarrow>
                     ((w1, b'),
                      [(''success'', PBool False),
                       (''error'', PStr (''Failed to unload model: '' @ exn_str e))])
                 | None \<Rightarrow>
                     ((log_event EvEmptyCache w1, b'),
                      [(''success'', PBool True),
                       (''message'', PStr ''Model unloaded successfully'')]))
              else
                ((w1, b'),
                 [(''success'', PBool True), (''message'', PStr ''Model unloaded successfully'')]))
      | None \<Rightarrow>
          (s, [(''success'', PBool True), (''message'', PStr ''No model was loaded'')]))"

text \<open>The filter both bridges apply to the catalogue.\<close>

definition is_bangla :: "string \<Rightarrow> bool" where
  "is_bangla model =
     (str_in ''bn'' (lower model) \<or> str_in ''bangla'' (lower model) \<or> str_in ''bengali'' (lower model))"

text \<open>\<open>CoquiTTSBridge.list_available_models\<close>.\<close>

definition list_available_models :: "env \<Rightarrow> world \<times> bridge \<Rightarrow> (world \<times> bridge) \<times> pydict" where
  "list_available_models E s =
     (case list_models E of
        Inl e \<Rightarrow>
          (s, [(''success'', PBool False),
               (''error'', PStr (''Failed to list models: '' @ exn_str e))])
      | Inr models \<Rightarrow>
          (s, [(''success'', PBool True),
               (''all_models'', PList (map PStr (take 20 models))),
               (''bangla_models'', PList (map PStr (filter is_bangla models))),
               (''total_models'', PInt (int (length models)))]))"

section \<open>The mock bridge: \<open>MockCoquiTTSBridge\<close>\<close>

record mock_bridge =
  mock_current_model_path :: pyval
  mock_model_info :: pydict
  mock_device :: string

text \<open>\<open>MockCoquiTTSBridge.__init__\<close>.\<close>

definition init_mock :: mock_bridge where
  "init_mock = \<lparr>mock_current_model_path = PNone, mock_model_info = [], mock_device = ''cpu''\<rparr>"

text \<open>The dictionary the mock's \<open>load_model\<close> stores in \<open>self.model_info\<close>.\<close>

definition mock_info :: "env \<Rightarrow> string \<Rightarrow> pydict" where
  "mock_info E model_path =
     [(''name'', PStr (basename model_path)),
      (''path'', PStr model_path),
      (''device'', PStr ''cpu''),
      (''language'', PStr (if str_in ''bangla'' (lower model_path) \<or> str_in ''bn'' (lower model_path)
                           then ''bn'' else ''multilingual'')),
      (''loaded_at'', PStr (time_str E)),
      (''speakers'', PList [PStr ''default_speaker'']),
      (''use_gpu'', PBool False)]"

text \<open>The \<open>except Exception\<close> branch of the mock's \<open>load_model\<close>.\<close>

definition mock_load_failed :: "env \<Rightarrow> exn \<Rightarrow> pydict" where
  "mock_load_failed E e =
     [(''success'', PBool False),
      (''error'', PStr (''Failed to load mock model: '' @ exn_str e)),
      (''traceback'', PStr (format_exc E e))]"

text \<open>
  \<open>MockCoquiTTSBridge.load_model\<close>. \<open>self.current_model_path\<close> is assigned first; then
  the dictionary is built, and \<open>os.path.basename\<close> raises \<open>TypeError\<close> on a
  \<open>model_path\<close> that is not a string: the \<open>except\<close> branch returns the failure and the
  assignment stays.
\<close>

definition mock_load_model :: "env \<Rightarrow> pyval \<Rightarrow> pyval \<Rightarrow> pyval \<Rightarrow> pyval \<Rightarrow> mock_bridge \<Rightarrow> mock_bridge \<times> pydict" where
  "mock_load_model E model_path config_path speaker_wav use_gpu b =
     (if py_eq (mock_current_model_path b) model_path then
        (b, [(''success'', PBool True),
             (''message'', PStr ''Model already loaded''),
             (''model_info'', PDict (mock_model_info b))])
      else
        (let b1 = b\<lparr>mock_current_model_path := model_path\<rparr> in
         case model_path of
           PStr p \<Rightarrow>
             (let info = mock_info E p in
              (b1\<lparr>mock_model_info := info\<rparr>,
               [(''success'', PBool True),
                (''message'', PStr ''Mock model loaded successfully on cpu''),
                (''model_info'', PDict info)]))
         | _ \<Rightarrow>
             (b1, mock_load_failed E (Exn ''TypeError''
                    (''expected str, bytes or os.PathLike object, not '' @ type_name model_path)))))"

text \<open>
  \<open>samples = int(len(text) * 0.1 * 22050)\<close> for a text of length \<open>n\<close>, over the
  rationals. The floating-point product differs from the exact one by less than one
  sample, which the cap at 1000 does not see: the exact product is 0 or at least 2205.
\<close>

definition mock_samples :: "nat \<Rightarrow> nat" where
  "mock_samples n = nat \<lfloor>(of_nat n * (1 / 10) * 22050 :: rat)\<rfloor>"

text \<open>The loop that fills \<open>mock_audio_data\<close>: byte \<open>i\<close> is \<open>(i + hash(text)) % 256\<close>.\<close>

definition mock_audio_data :: "env \<Rightarrow> string \<Rightarrow> byte list" where
  "mock_audio_data E text =
     map (\<lambda>i. (word_of_int ((int i + py_hash E text) mod 256) :: byte))
       [0 ..< min (mock_samples (length text)) 1000]"

text \<open>The \<open>except Exception\<close> branch of the mock's \<open>synthesize_speech\<close>.\<close>

definition mock_synth_failed :: "env \<Rightarrow> exn \<Rightarrow> pydict" where
  "mock_synth_failed E e =
     [(''success'', PBool False),
      (''error'', PStr (''Failed to synthesize mock speech: '' @ exn_str e)),
      (''traceback'', PStr (format_exc E e))]"

text \<open>The record of a successful mock synthesis of \<open>n\<close> characters into \<open>audio\<close>.\<close>

definition mock_synth_result :: "nat \<Rightarrow> byte list \<Rightarrow> pyval \<Rightarrow> pyval \<Rightarrow> pydict" where
  "mock_synth_result n audio language speaker_wav =
     [(''success'', PBool True),
      (''audio_data'', PStr (b64encode audio)),
      (''audio_length'', PInt (int (length audio))),
      (''text_length'', PInt (int n)),
      (''language'', language),
      (''speaker_wav'', speaker_wav),
      (''processing_time'', PFloat (of_nat n * (1 / 100)))]"

text \<open>
  \<open>MockCoquiTTSBridge.synthesize_speech\<close>. \<open>len(text)\<close> raises on a value without
  length; \<open>hash(text)\<close>, evaluated in the loop only, raises on a list or a dictionary.
\<close>

definition mock_synthesize_speech :: "env \<Rightarrow> pyval \<Rightarrow> pyval \<Rightarrow> pyval \<Rightarrow> pyval \<Rightarrow> mock_bridge \<Rightarrow> mock_bridge \<times> pydict" where
  "mock_synthesize_speech E text speaker_wav language speed b =
     (if \<not> truthy (mock_current_model_path b) then
        (b, [(''success'', PBool False),
             (''error'', PStr ''No model loaded. Please load a model first.'')])
      else
        (case py_len text of
           None \<Rightarrow>
             (b, mock_synth_failed E (Exn ''TypeError''
                   (''object of type '' @ quoted (type_name text) @ '' has no len()'')))
         | Some n \<Rightarrow>
             if min (mock_samples n) 1000 = 0 then
               (b, mock_synth_result n [] language speaker_wav)
             else
               (case text of
                  PStr t \<Rightarrow> (b, mock_synth_result n (mock_audio_data E t) language speaker_wav)
                | _ \<Rightarrow>
                    (b, mock_synth_failed E (Exn ''TypeError''
                          (''unhashable type: '' @ quoted (type_name text)))))))"

text \<open>\<open>MockCoquiTTSBridge.get_model_info\<close>.\<close>

definition mock_get_model_info :: "mock_bridge \<Rightarrow> mock_bridge \<times> pydict" where
  "mock_get_model_info b =
     (if \<not> truthy (mock_current_model_path b) then
        (b, [(''success'', PBool False), (''error'', PStr ''No model loaded'')])
      else
        (b, [(''success'', PBool True), (''model_info'', PDict (mock_model_info b))]))"

text \<open>\<open>MockCoquiTTSBridge.unload_model\<close>.\<close>

definition mock_unload_model :: "mock_bridge \<Rightarrow> mock_bridge \<times> pydict" where
  "mock_unload_model b =
     (if truthy (mock_current_model_path b) then
        (b\<lparr>mock_current_model_path := PNone, mock_model_info := []\<rparr>,
         [(''success'', PBool True), (''message'', PStr ''Mock model unloaded successfully'')])
      else
        (b, [(''success'', PBool True), (''message'', PStr ''No model was loaded'')]))"

text \<open>The mock's fixed catalogue.\<close>

definition mock_catalogue :: "string list" where
  "mock_catalogue =
     [''tts_models/multilingual/multi-dataset/xtts_v2'',
      ''tts_models/en/ljspeech/tacotron2-DDC'',
      ''tts_models/en/ljspeech/glow-tts'',
      ''tts_models/bn/custom/bangla-model-v1'',
      ''tts_models/bn/custom/bangla-model-v2'']"

text \<open>\<open>MockCoquiTTSBridge.list_available_models\<close>.\<close>

definition mock_list_available_models :: "mock_bridge \<Rightarrow> mock_bridge \<times> pydict" where
  "mock_list_available_models b =
     (b, [(''success'', PBool True),
          (''all_models'', PList (map PStr mock_catalogue)),
          (''bangla_models'', PList (map PStr (filter is_bangla mock_catalogue))),
          (''total_models'', PInt (int (length mock_catalogue)))])"

section \<open>The request loop and the dispatch (\<open>main\<close> of both files)\<close>

text \<open>
  A call of one of the five methods with its arguments as Python binds them: the values
  of the request for the parameters it names, the defaults of the signature for the
  others. Python does not check the annotations, so an argument is any value.
  \<open>LoadModel model_path config_path speaker_wav use_gpu\<close>;
  \<open>SynthesizeSpeech text speaker_wav language speed\<close>.
\<close>

datatype call =
    LoadModel pyval pyval pyval pyval
  | SynthesizeSpeech pyval pyval pyval pyval
  | GetModelInfo
  | UnloadModel
  | ListAvailableModels

fun real_call :: "env \<Rightarrow> call \<Rightarrow> world \<times> bridge \<Rightarrow> (world \<times> bridge) \<times> pydict" where
  "real_call E (LoadModel model_path config_path speaker_wav use_gpu) s =
     load_model E model_path config_path speaker_wav use_gpu s"
| "real_call E (SynthesizeSpeech text speaker_wav language speed) s =
     synthesize_speech E text speaker_wav language speed s"
| "real_call E GetModelInfo s = get_model_info s"
| "real_call E UnloadModel s = unload_model E s"
| "real_call E ListAvailableModels s = list_available_models E s"

fun mock_call :: "env \<Rightarrow> call \<Rightarrow> mock_bridge \<Rightarrow> mock_bridge \<times> pydict" where
  "mock_call E (LoadModel model_path config_path speaker_wav use_gpu) b =
     mock_load_model E model_path config_path speaker_wav use_gpu b"
| "mock_call E (SynthesizeSpeech text speaker_wav language speed) b =
     mock_synthesize_speech E text speaker_wav language speed b"
| "mock_call E GetModelInfo b = mock_get_model_info b"
| "mock_call E UnloadModel b = mock_unload_model b"
| "mock_call E ListAvailableModels b = mock_list_available_models b"

text \<open>
  Whether \<open>method(**params)\<close> binds: \<open>params\<close> names only parameters of the signature
  and names the required one. Otherwise the call raises \<open>TypeError\<close> before the method
  runs.
\<close>

definition accepts :: "string list \<Rightarrow> string \<Rightarrow> pydict \<Rightarrow> bool" where
  "accepts names required kv =
     (list_all (\<lambda>k. List.member names k) (map fst kv) \<and> map_of kv required \<noteq> None)"

text \<open>
  \<open>bridge.load_model(**params)\<close> as a call, \<open>None\<close> when binding raises (also when
  \<open>params\<close> is not a mapping).
\<close>

definition bind_load_model :: "pyval \<Rightarrow> call option" where
  "bind_load_model params =
     (case params of
        PDict kv \<Rightarrow>
          if accepts [''model_path'', ''config_path'', ''speaker_wav'', ''use_gpu''] ''model_path'' kv
          then Some (LoadModel (dict_get kv ''model_path'')
                       (dict_get_default kv ''config_path'' PNone)
                       (dict_get_default kv ''speaker_wav'' PNone)
                       (dict_get_default kv ''use_gpu'' (PBool True)))
          else None
      | _ \<Rightarrow> None)"

text \<open>\<open>bridge.synthesize_speech(**params)\<close> as a call.\<close>

definition bind_synthesize_speech :: "pyval \<Rightarrow> call option" where
  "bind_synthesize_speech params =
     (case params of
        PDict kv \<Rightarrow>
          if accepts [''text'', ''speaker_wav'', ''language'', ''speed''] ''text'' kv
          then Some (SynthesizeSpeech (dict_get kv ''text'')
                       (dict_get_default kv ''speaker_wav'' PNone)
                       (dict_get_default kv ''language'' (PStr ''bn''))
                       (dict_get_default kv ''speed'' (PFloat 1)))
          else None
      | _ \<Rightarrow> None)"

text \<open>
  What routing one parsed request comes to: the method returned its result record, or the
  call raised before the method ran.
\<close>

datatype 'st outcome = Returned 'st pydict | Raised exn

definition invoke :: "(call \<Rightarrow> 'st \<Rightarrow> 'st \<times> pydict) \<Rightarrow> env \<Rightarrow> string \<Rightarrow> pyval \<Rightarrow> call option \<Rightarrow> 'st \<Rightarrow> 'st outcome" where
  "invoke exec E name params bd st =
     (case bd of
        Some c \<Rightarrow> Returned (fst (exec c st)) (snd (exec c st))
      | None \<Rightarrow> Raised (Exn ''TypeError'' (kwargs_error E name params)))"

text \<open>
  The \<open>if\<close>/\<open>elif\<close> chain that routes a request to the bridge's method. The last three
  methods are called without arguments, whatever \<open>params\<close> is.
\<close>

definition route :: "(call \<Rightarrow> 'st \<Rightarrow> 'st \<times> pydict) \<Rightarrow> env \<Rightarrow> pyval \<Rightarrow> pyval \<Rightarrow> 'st \<Rightarrow> 'st outcome" where
  "route exec E method params st =
     (if method = PStr ''load_model'' then
        invoke exec E ''load_model'' params (bind_load_model params) st
      else if method = PStr ''synthesize_speech'' then
        invoke exec E ''synthesize_speech'' params (bind_synthesize_speech params) st
      else if method = PStr ''get_model_info'' then
        invoke exec E ''get_model_info'' params (Some GetModelInfo) st
      else if method = PStr ''unload_model'' then
        invoke exec E ''unload_model'' params (Some UnloadModel) st
      else if method = PStr ''list_available_models'' then
        invoke exec E ''list_available_models'' params (Some ListAvailableModels) st
      else
        Returned st [(''success'', PBool False),
                     (''error'', PStr (''Unknown method: '' @ format_value E method))])"

text \<open>The response built from a method's result record.\<close>

definition response :: "pyval \<Rightarrow> pydict \<Rightarrow> pydict" where
  "response request_id result =
     [(''id'', request_id),
      (''success'', dict_get_default result ''success'' (PBool False)),
      (''result'', if truthy (dict_get result ''success'') then PDict result else PNone),
      (''error'', if \<not> truthy (dict_get result ''success'') then dict_get result ''error'' else PNone)]"

text \<open>The response of the inner \<open>except Exception\<close> of the loop.\<close>

definition unexpected_error :: "env \<Rightarrow> pyval \<Rightarrow> exn \<Rightarrow> pydict" where
  "unexpected_error E request_id e =
     [(''id'', request_id),
      (''success'', PBool False),
      (''error'', PStr (''Unexpected error: '' @ exn_str e)),
      (''traceback'', PStr (format_exc E e))]"

text \<open>The response of the outer \<open>except Exception\<close>, after which \<open>main\<close> returns.\<close>

definition fatal_error :: "env \<Rightarrow> exn \<Rightarrow> pydict" where
  "fatal_error E e =
     [(''id'', PStr ''fatal_error''),
      (''success'', PBool False),
      (''error'', PStr (''Fatal error: '' @ exn_str e)),
      (''traceback'', PStr (format_exc E e))]"

text \<open>The response of \<open>except json.JSONDecodeError\<close>.\<close>

definition parse_error :: "string \<Rightarrow> pydict" where
  "parse_error msg =
     [(''id'', PStr ''parse_error''),
      (''success'', PBool False),
      (''error'', PStr (''Failed to parse JSON: '' @ msg))]"

text \<open>The \<open>AttributeError\<close> of \<open>request.get\<close> on a value that is not a dictionary.\<close>

definition no_get :: "pyval \<Rightarrow> exn" where
  "no_get v =
     Exn ''AttributeError''
       (quoted (type_name v) @ '' object has no attribute '' @ quoted ''get'')"

text \<open>
  One pass of the loop's body on one line: nothing is printed (\<open>Skip\<close>), one response is
  printed and the loop goes on with a bridge state and a value of the variable \<open>request\<close>
  (\<open>Emit\<close>), or one response is printed and the loop is left (\<open>Fatal\<close>).
\<close>

datatype 'st step = Skip | Emit 'st "pyval option" pydict | Fatal pydict

text \<open>
  The body of the inner \<open>try\<close> after \<open>json.loads\<close> has returned \<open>request\<close>. A request
  that is not an object has no \<open>get\<close>: the \<open>AttributeError\<close> is raised again inside the
  inner handler, which evaluates \<open>request.get\<close> too, and reaches the outer handler.
\<close>

definition process_request :: "(call \<Rightarrow> 'st \<Rightarrow> 'st \<times> pydict) \<Rightarrow> env \<Rightarrow> pyval \<Rightarrow> 'st \<Rightarrow> 'st step" where
  "process_request exec E request st =
     (case request of
        PDict kv \<Rightarrow>
          (let request_id = dict_get_default kv ''id'' (PStr ''unknown'');
               method = dict_get_default kv ''method'' (PStr []);
               params = dict_get_default kv ''params'' (PDict [])
           in case route exec E method params st of
                Returned st' result \<Rightarrow> Emit st' (Some request) (response request_id result)
              | Raised e \<Rightarrow> Emit st (Some request) (unexpected_error E request_id e))
      | _ \<Rightarrow> Fatal (fatal_error E (no_get request)))"

text \<open>
  The inner handler after \<open>json.loads\<close> itself has raised another exception than
  \<open>JSONDecodeError\<close>: the variable \<open>request\<close> is unbound (\<open>None\<close> here) or still holds
  the request of an earlier line, whose id the response then carries.
\<close>

definition stale_answer :: "env \<Rightarrow> pyval option \<Rightarrow> exn \<Rightarrow> 'st \<Rightarrow> 'st step" where
  "stale_answer E rq e st =
     (case rq of
        None \<Rightarrow> Emit st rq (unexpected_error E (PStr ''unknown'') e)
      | Some (PDict kv) \<Rightarrow>
          Emit st rq (unexpected_error E (dict_get_default kv ''id'' (PStr ''unknown'')) e)
      | Some v \<Rightarrow> Fatal (fatal_error E (no_get v)))"

text \<open>The body of the loop on one line, from the bridge state and the variable \<open>request\<close>.\<close>

definition handle_line :: "(call \<Rightarrow> 'st \<Rightarrow> 'st \<times> pydict) \<Rightarrow> env \<Rightarrow> string \<Rightarrow> 'st \<Rightarrow> pyval option \<Rightarrow> 'st step" where
  "handle_line exec E line st rq =
     (let l = strip line in
      if l = [] then Skip
      else (case json_loads E l of
              DecodeError msg \<Rightarrow> Emit st rq (parse_error msg)
            | OtherError e \<Rightarrow> stale_answer E rq e st
            | Parsed request \<Rightarrow> process_request exec E request st))"

text \<open>How the loop over the lines of the input ends.\<close>

datatype ending = EndOfInput | FatalError

text \<open>
  \<open>for line in sys.stdin\<close>: the responses printed, the final state and how the loop ended.
  The input is the finite list of the lines read until the end of the stream; an
  interrupt from the keyboard is not part of it.
\<close>

fun request_loop :: "(call \<Rightarrow> 'st \<Rightarrow> 'st \<times> pydict) \<Rightarrow> env \<Rightarrow> 'st \<Rightarrow> pyval option \<Rightarrow> string list \<Rightarrow> pydict list \<times> 'st \<times> ending" where
  "request_loop exec E st rq [] = ([], st, EndOfInput)"
| "request_loop exec E st rq (line # rest) =
     (case handle_line exec E line st rq of
        Skip \<Rightarrow> request_loop exec E st rq rest
      | Emit st' rq' r \<Rightarrow>
          (let out = request_loop exec E st' rq' rest in (r # fst out, snd out))
      | Fatal r \<Rightarrow> ([r], st, FatalError))"

text \<open>\<open>main\<close> of the real bridge: the ready signal, then the loop.\<close>

definition main :: "env \<Rightarrow> world \<Rightarrow> string list \<Rightarrow> pydict list \<times> (world \<times> bridge) \<times> ending" where
  "main E w lines =
     (let out = request_loop (real_call E) E (w, init_bridge E) None lines in
      ([(''id'', PStr ''ready''), (''success'', PBool True),
        (''message'', PStr ''Coqui TTS bridge ready''),
        (''device'', PStr (device (init_bridge E)))] # fst out, snd out))"

text \<open>\<open>main\<close> of the mock bridge.\<close>

definition mock_main :: "env \<Rightarrow> string list \<Rightarrow> pydict list \<times> mock_bridge \<times> ending" where
  "mock_main E lines =
     (let out = request_loop (mock_call E) E init_mock None lines in
      ([(''id'', PStr ''ready''), (''success'', PBool True),
        (''message'', PStr ''Mock Coqui TTS bridge ready (development mode)''),
        (''device'', PStr (mock_device init_mock))] # fst out, snd out))"

section \<open>Notions the properties are stated with\<close>

text \<open>A sequence of calls on the real bridge and on the mock, each on the state the last left.\<close>

fun real_calls :: "env \<Rightarrow> world \<times> bridge \<Rightarrow> call list \<Rightarrow> world \<times> bridge" where
  "real_calls E s [] = s"
| "real_calls E s (c # cs) = real_calls E (fst (real_call E c s)) cs"

fun mock_calls :: "env \<Rightarrow> mock_bridge \<Rightarrow> call list \<Rightarrow> mock_bridge" where
  "mock_calls E b [] = b"
| "mock_calls E b (c # cs) = mock_calls E (fst (mock_call E c b)) cs"

text \<open>
  The invariant of the model state: \<open>model_info\<close> is non-empty exactly when
  \<open>current_model_path\<close> is set, and, in the real bridge, exactly when \<open>tts_model\<close> is set.
\<close>

definition model_state_ok :: "bridge \<Rightarrow> bool" where
  "model_state_ok b =
     ((model_info b \<noteq> []) = (current_model_path b \<noteq> PNone) \<and>
      (current_model_path b \<noteq> PNone) = (tts_model b \<noteq> None))"

definition mock_state_ok :: "mock_bridge \<Rightarrow> bool" where
  "mock_state_ok b = ((mock_model_info b \<noteq> []) = (mock_current_model_path b \<noteq> PNone))"

fun is_string :: "pyval \<Rightarrow> bool" where
  "is_string (PStr s) = True"
| "is_string v = False"

fun is_mapping :: "pyval \<Rightarrow> bool" where
  "is_mapping (PDict d) = True"
| "is_mapping v = False"

text \<open>
  The shape of a method's result record: success, or failure with a string as \<open>error\<close>.
\<close>

definition result_record :: "pydict \<Rightarrow> bool" where
  "result_record res =
     (dict_get res ''success'' = PBool True \<or>
      (dict_get res ''success'' = PBool False \<and> is_string (dict_get res ''error'')))"

text \<open>
  The two shapes of a response: success with a mapping as \<open>result\<close> and no \<open>error\<close>, or
  failure with a string as \<open>error\<close> and no \<open>result\<close>. A key that is missing and a key
  whose value is \<open>None\<close> both read as \<open>PNone\<close>.
\<close>

definition envelope :: "pydict \<Rightarrow> bool" where
  "envelope r =
     ((dict_get r ''success'' = PBool True \<and> is_mapping (dict_get r ''result'')
         \<and> dict_get r ''error'' = PNone) \<or>
      (dict_get r ''success'' = PBool False \<and> dict_get r ''result'' = PNone
         \<and> is_string (dict_get r ''error'')))"

text \<open>
  The step of the loop that answers the request object \<open>kv\<close> with the result of the call
  \<open>c\<close>: the bridge goes to the state the call leaves, and the response is built from the
  request's id and the record the call returns.
\<close>

definition answer :: "(call \<Rightarrow> 'st \<Rightarrow> 'st \<times> pydict) \<Rightarrow> pydict \<Rightarrow> call \<Rightarrow> 'st \<Rightarrow> 'st step" where
  "answer exec kv c st =
     Emit (fst (exec c st)) (Some (PDict kv))
       (response (dict_get_default kv ''id'' (PStr ''unknown'')) (snd (exec c st)))"

text \<open>
  The response \<open>r\<close> carries the result record \<open>res\<close>: when \<open>res\<close> reports success,
  \<open>r\<close> does, its \<open>result\<close> is \<open>res\<close> itself and its \<open>error\<close> is null; otherwise \<open>r\<close>
  reports failure, its \<open>result\<close> is null and its \<open>error\<close> is the \<open>error\<close> entry of
  \<open>res\<close>, a string.
\<close>

definition carries :: "pydict \<Rightarrow> pydict \<Rightarrow> bool" where
  "carries r res =
     (if dict_get res ''success'' = PBool True
      then dict_get r ''success'' = PBool True \<and> dict_get r ''result'' = PDict res
             \<and> dict_get r ''error'' = PNone
      else dict_get r ''success'' = PBool False \<and> dict_get r ''result'' = PNone
             \<and> dict_get r ''error'' = dict_get res ''error''
             \<and> is_string (dict_get res ''error''))"

text \<open>
  The mock's state stands for the real bridge's: the same \<open>current_model_path\<close>, and a
  model counts as loaded in the one exactly when it does in the other.
\<close>

definition corresponds :: "bridge \<Rightarrow> mock_bridge \<Rightarrow> bool" where
  "corresponds rb mb =
     (current_model_path rb = mock_current_model_path mb \<and>
      (tts_model rb \<noteq> None) = truthy (mock_current_model_path mb))"

text \<open>The position of a character in a string.\<close>

fun find_index :: "char \<Rightarrow> string \<Rightarrow> nat option" where
  "find_index c [] = None"
| "find_index c (x # xs) = (if c = x then Some 0 else map_option Suc (find_index c xs))"

definition b64_index :: "char \<Rightarrow> nat option" where
  "b64_index c = find_index c b64_alphabet"

text \<open>
  RFC 4648 base64 decoding: four characters of the alphabet give three bytes; a last group
  ending in \<open>=\<close> or \<open>==\<close> gives two bytes or one. \<open>None\<close> on any other input.
\<close>

fun b64decode :: "string \<Rightarrow> byte list option" where
  "b64decode [] = Some []"
| "b64decode (c1 # c2 # c3 # c4 # rest) =
     (if rest = [] \<and> c3 = CHR ''='' \<and> c4 = CHR ''='' then
        (case (b64_index c1, b64_index c2) of
           (Some i1, Some i2) \<Rightarrow> Some [word_of_nat ((i1 * 64 + i2) div 16)]
         | _ \<Rightarrow> None)
      else if rest = [] \<and> c4 = CHR ''='' then
        (case (b64_index c1, b64_index c2, b64_index c3) of
           (Some i1, Some i2, Some i3) \<Rightarrow>
             (let n = i1 * 4096 + i2 * 64 + i3 in
              Some [word_of_nat (n div 1024), word_of_nat (n div 4 mod 256)])
         | _ \<Rightarrow> None)
      else
        (case (b64_index c1, b64_index c2, b64_index c3, b64_index c4) of
           (Some i1, Some i2, Some i3, Some i4) \<Rightarrow>
             (let n = i1 * 262144 + i2 * 4096 + i3 * 64 + i4 in
              map_option
                (\<lambda>bs. word_of_nat (n div 65536) # word_of_nat (n div 256 mod 256)
                        # word_of_nat (n mod 256) # bs)
                (b64decode rest))
         | _ \<Rightarrow> None))"
| "b64decode cs = None"

text \<open>The string value of an entry of a record; the empty string for any other value.\<close>

fun py_string :: "pyval \<Rightarrow> string" where
  "py_string (PStr s) = s"
| "py_string v = []"

text \<open>The items of a Python list; no items for any other value.\<close>

fun py_items :: "pyval \<Rightarrow> pyval list" where
  "py_items (PList xs) = xs"
| "py_items v = []"

text \<open>The keys of a result record.\<close>

definition keys :: "pydict \<Rightarrow> string list" where
  "keys d = map fst d"

section \<open>A concrete environment for the examples\<close>

text \<open>
  A catalogue of twenty-two identifiers, the two Bangla ones last; the engine's own
  catalogue lists more models than twenty.
\<close>

definition example_catalogue :: "string list" where
  "example_catalogue =
     [''tts_models/multilingual/multi-dataset/xtts_v2'',
      ''tts_models/multilingual/multi-dataset/xtts_v1.1'',
      ''tts_models/multilingual/multi-dataset/your_tts'',
      ''tts_models/multilingual/multi-dataset/bark'',
      ''tts_models/bg/cv/vits'',
      ''tts_models/cs/cv/vits'',
      ''tts_models/da/cv/vits'',
      ''tts_models/et/cv/vits'',
      ''tts_models/ga/cv/vits'',
      ''tts_models/en/ek1/tacotron2'',
      ''tts_models/en/ljspeech/tacotron2-DDC'',
      ''tts_models/en/ljspeech/glow-tts'',
      ''tts_models/en/ljspeech/speedy-speech'',
      ''tts_models/en/ljspeech/vits'',
      ''tts_models/en/vctk/vits'',
      ''tts_models/es/mai/tacotron2-DDC'',
      ''tts_models/fr/mai/tacotron2-DDC'',
      ''tts_models/de/thorsten/vits'',
      ''tts_models/ja/kokoro/tacotron2-DDC'',
      ''tts_models/uk/mai/glow-tts'',
      ''tts_models/bn/custom/vits-male'',
      ''tts_models/bn/custom/vits-female'']"





definition load_line :: string where
  \<open>load_line =
     ''{"id": "2", "method": "load_model", "params": {"model_path": "tts_models/bn/x"}}''
     @ [CHR 0x0A]\<close>

definition number_line :: string where
  \<open>number_line =
     ''{"id": "3", "method": "load_model", "params": {"model_path": 5}}'' @ [CHR 0x0A]\<close>


definition deep_text :: string where
  "deep_text = replicate 1000 (CHR ''['')"


text \<open>The parsed requests of the three request lines.\<close>

definition info_request :: pyval where
  "info_request = PDict [(''id'', PStr ''1''), (''method'', PStr ''get_model_info'')]"

definition load_request :: pyval where
  "load_request =
     PDict [(''id'', PStr ''2''), (''method'', PStr ''load_model''),
            (''params'', PDict [(''model_path'', PStr ''tts_models/bn/x'')])]"

definition number_request :: pyval where
  "number_request =
     PDict [(''id'', PStr ''3''), (''method'', PStr ''load_model''),
            (''params'', PDict [(''model_path'', PInt 5)])]"

text \<open>
  \<open>json.loads\<close> on the stripped example lines, as Python 3 answers them: the thousand
  brackets exceed the recursion limit, \<open>NaN\<close> is accepted as a float.
\<close>

definition example_json_loads :: "string \<Rightarrow> loaded" where
  \<open>example_json_loads l =
     (if l = deep_text then
        OtherError (Exn ''RecursionError''
          ''maximum recursion depth exceeded while decoding a JSON array from a unicode string'')
      else if l = ''NaN'' then Parsed PNaN
      else if l = ''{"id": "1", "method": "get_model_info"}'' then Parsed info_request
      else if l = ''{"id": "2", "method": "load_model", "params": {"model_path": "tts_models/bn/x"}}''
        then Parsed load_request
      else if l = ''{"id": "3", "method": "load_model", "params": {"model_path": 5}}''
        then Parsed number_request
      else if l = ''{oops'' then
        DecodeError ''Expecting property name enclosed in double quotes: line 1 column 2 (char 1)''
      else DecodeError ''Expecting value: line 1 column 1 (char 0)'')\<close>

text \<open>
  An engine without accelerator. It has every model but \<open>tts_models/xx/none\<close>; the
  download of \<open>tts_models/bn/flaky\<close> fails at the first attempt and works afterwards. A
  model it loads has the speakers \<open>s1\<close> and \<open>s2\<close>. Synthesis writes three bytes to the
  file it is given, and raises on the text \<open>fail\<close>.
\<close>

definition example_env :: env where
  "example_env =
     \<lparr>cuda_available = False,
      TTS = (\<lambda>hist src dev.
        if src = ByName ''tts_models/xx/none''
        then Inl (Exn ''KeyError'' (quoted ''xx''))
        else if src = ByName ''tts_models/bn/flaky'' \<and> \<not> List.member hist (EvAcquire src dev)
        then Inl (Exn ''ConnectionError'' ''Connection aborted.'')
        else Inr \<lparr>h_id = (case src of ByName n \<Rightarrow> length n | ByPath p c \<Rightarrow> length p),
                  h_language = None, h_speakers = Some (Some [''s1'', ''s2''])\<rparr>),
      tts_to_file = (\<lambda>h text v language file_path speed f.
        if text = PStr ''fail'' then (Some (Exn ''RuntimeError'' ''synthesis failed''), f)
        else (None, f(file_path \<mapsto> [1, 2, 3]))),
      empty_cache = None,
      list_models = Inr example_catalogue,
      named_temporary_file = (\<lambda>f. Inr ''/tmp/tmpk3x9''),
      exists_other = (\<lambda>v. Inl (Exn ''TypeError''
        (''stat: path should be string, bytes, os.PathLike or integer, not '' @ type_name v))),
      worker_info = ''unknown'',
      format_exc = (\<lambda>e. ''Traceback (most recent call last): '' @ exn_str e),
      time_str = ''1700000000.0'',
      py_hash = (\<lambda>s. 7),
      kwargs_error = (\<lambda>name params. name @ ''() missing 1 required positional argument''),
      py_str = (\<lambda>v. type_name v),
      json_loads = example_json_loads\<rparr>"

definition empty_world :: world where
  "empty_world = \<lparr>files = Map.empty, events = []\<rparr>"

text \<open>The real bridge after it has loaded \<open>tts_models/bn/x\<close> on start.\<close>

definition example_loaded :: "world \<times> bridge" where
  "example_loaded =
     fst (load_model example_env (PStr ''tts_models/bn/x'') PNone PNone (PBool True)
            (empty_world, init_bridge example_env))"


definition example_info :: pydict where
  "example_info =
     [(''name'', PStr ''x''),
      (''path'', PStr ''tts_models/bn/x''),
      (''device'', PStr ''cpu''),
      (''language'', PStr ''unknown''),
      (''loaded_at'', PStr ''unknown''),
      (''speakers'', PList [PStr ''s1'', PStr ''s2'']),
      (''use_gpu'', PBool False)]"

text \<open>The mock after it has loaded \<open>tts_models/bn/x\<close> on start, and what it stores.\<close>

definition example_mock_info :: pydict where
  "example_mock_info =
     [(''name'', PStr ''x''),
      (''path'', PStr ''tts_models/bn/x''),
      (''device'', PStr ''cpu''),
      (''language'', PStr ''bn''),
      (''loaded_at'', PStr ''1700000000.0''),
      (''speakers'', PList [PStr ''default_speaker'']),
      (''use_gpu'', PBool False)]"

definition example_mock_loaded :: mock_bridge where
  "example_mock_loaded =
     \<lparr>mock_current_model_path = PStr ''tts_models/bn/x'', mock_model_info = example_mock_info,
      mock_device = ''cpu''\<rparr>"

section \<open>Strings: what the source's tests on them mean\<close>

lemma startswith_iff: "startswith s p \<longleftrightarrow> (\<exists>post. s = p @ post)"
  by (induction s p rule: startswith.induct) auto

lemma str_in_iff: "str_in n h \<longleftrightarrow> (\<exists>pre post. h = pre @ n @ post)"
proof (induction h)
  case Nil
  then show ?case by auto
next
  case (Cons c cs)
  have "(\<exists>pre post. c # cs = pre @ n @ post) \<longleftrightarrow>
        (\<exists>post. c # cs = n @ post) \<or> (\<exists>pre post. cs = pre @ n @ post)"
    by (auto simp: Cons_eq_append_conv)
  with Cons show ?case by (simp add: startswith_iff)
qed

section \<open>The catalogue and its Bangla subset\<close>

lemma example_list_models: "list_models example_env = Inr example_catalogue"
  by (simp add: example_env_def)

lemma example_bangla:
  "filter is_bangla example_catalogue =
     [''tts_models/bn/custom/vits-male'', ''tts_models/bn/custom/vits-female'']"
  by code_simp

lemma example_first20:
  "''tts_models/bn/custom/vits-male'' \<notin> set (take 20 example_catalogue)"
  by code_simp

text \<open>
  C7, as the claim states it, fails on the real bridge: \<open>bangla_models\<close> is filtered from
  the whole catalogue, \<open>all_models\<close> is its first twenty entries only. On a catalogue whose
  twenty-first entry is a Bangla model the call succeeds, that model is in
  \<open>bangla_models\<close> and it is not in \<open>all_models\<close>.
\<close>

theorem bangla_not_subset_counterexample:
  "dict_get (snd (list_available_models example_env (empty_world, init_bridge example_env)))
      ''success'' = PBool True \<and>
   PStr ''tts_models/bn/custom/vits-male'' \<in>
     set (py_items (dict_get (snd (list_available_models example_env
        (empty_world, init_bridge example_env))) ''bangla_models'')) \<and>
   PStr ''tts_models/bn/custom/vits-male'' \<notin>
     set (py_items (dict_get (snd (list_available_models example_env
        (empty_world, init_bridge example_env))) ''all_models''))"
proof -
  have inj: "\<And>x xs. (PStr x \<in> PStr ` set xs) = (x \<in> set xs)"
    by auto
  show ?thesis
    using example_first20
    by (simp add: list_available_models_def example_list_models dict_get_def example_bangla inj)
qed

text \<open>
  C7, amended. Every successful call of the real bridge's \<open>list_available_models\<close>
  leaves the state as it was, returns as \<open>all_models\<close> the first twenty entries of the
  catalogue and as \<open>bangla_models\<close> the entries of the whole catalogue, in order, whose
  lower-cased identifier has \<open>bn\<close>, \<open>bangla\<close> or \<open>bengali\<close> as a substring, and no other
  entry. \<open>bangla_models\<close> is a subset of the catalogue; it is a subset of \<open>all_models\<close>
  when the catalogue has at most twenty entries. The mock returns its whole catalogue of
  five as \<open>all_models\<close> and the same filter of it as \<open>bangla_models\<close>, a subset of
  \<open>all_models\<close>.
\<close>

theorem bangla_models_filter:
  "list_models E = Inr models \<Longrightarrow>
     fst (list_available_models E s) = s \<and>
     dict_get (snd (list_available_models E s)) ''success'' = PBool True \<and>
     dict_get (snd (list_available_models E s)) ''all_models'' = PList (map PStr (take 20 models)) \<and>
     dict_get (snd (list_available_models E s)) ''bangla_models'' =
       PList (map PStr (filter is_bangla models)) \<and>
     set (filter is_bangla models) \<subseteq> set models \<and>
     (\<forall>m. m \<in> set (filter is_bangla models) \<longleftrightarrow>
        m \<in> set models \<and>
        (\<exists>pre post. lower m = pre @ ''bn'' @ post \<or> lower m = pre @ ''bangla'' @ post
           \<or> lower m = pre @ ''bengali'' @ post)) \<and>
     (length models \<le> 20 \<longrightarrow> set (filter is_bangla models) \<subseteq> set (take 20 models)) \<and>
     dict_get (snd (mock_list_available_models b)) ''all_models'' = PList (map PStr mock_catalogue) \<and>
     dict_get (snd (mock_list_available_models b)) ''bangla_models'' =
       PList (map PStr (filter is_bangla mock_catalogue)) \<and>
     set (filter is_bangla mock_catalogue) \<subseteq> set mock_catalogue"
  by (auto simp: list_available_models_def mock_list_available_models_def dict_get_def
        is_bangla_def str_in_iff)

theorem bangla_models_filter_witness:
  "list_models example_env = Inr example_catalogue \<and>
   dict_get (snd (list_available_models example_env (empty_world, init_bridge example_env)))
       ''bangla_models'' =
     PList [PStr ''tts_models/bn/custom/vits-male'', PStr ''tts_models/bn/custom/vits-female'']"
proof -
  have h: "list_models example_env = Inr example_catalogue"
    by (rule example_list_models)
  show ?thesis
    using h bangla_models_filter [OF h, of "(empty_world, init_bridge example_env)" init_mock]
    by (simp add: example_bangla)
qed

section \<open>Result records\<close>

lemma dict_get_Nil [simp]: "dict_get [] k = PNone"
  by (simp add: dict_get_def)

lemma dict_get_Cons [simp]: "dict_get ((k, v) # d) k' = (if k = k' then v else dict_get d k')"
  by (simp add: dict_get_def)

lemma result_record_success [simp]: "result_record ((''success'', PBool True) # d)"
  by (simp add: result_record_def)

lemma result_record_failure [simp]:
  "result_record ((''success'', PBool False) # (''error'', PStr m) # d)"
  by (simp add: result_record_def)

lemma load_model_record: "result_record (snd (load_model E p c sw g s))"
  by (simp add: load_model_def acquire_def load_failed_def Let_def
      split: sum.splits option.splits pyval.splits bool.splits)

lemma synthesize_speech_record: "result_record (snd (synthesize_speech E t sw l sp s))"
  by (simp add: synthesize_speech_def synthesize_body_def synth_failed_def Let_def
      split: sum.splits option.splits)

lemma unload_model_record: "result_record (snd (unload_model E s))"
  by (simp add: unload_model_def Let_def split: option.splits)

lemma real_call_record: "result_record (snd (real_call E c s))"
proof (cases c)
  case (LoadModel p cf sw g)
  then show ?thesis by (simp add: load_model_record)
next
  case (SynthesizeSpeech t sw l sp)
  then show ?thesis by (simp add: synthesize_speech_record)
next
  case GetModelInfo
  then show ?thesis by (simp add: get_model_info_def)
next
  case UnloadModel
  then show ?thesis by (simp add: unload_model_record)
next
  case ListAvailableModels
  then show ?thesis by (simp add: list_available_models_def split: sum.splits)
qed

lemma mock_load_model_record: "result_record (snd (mock_load_model E p c sw g b))"
  by (simp add: mock_load_model_def mock_load_failed_def Let_def split: pyval.splits)

lemma mock_synthesize_speech_record: "result_record (snd (mock_synthesize_speech E t sw l sp b))"
  by (simp add: mock_synthesize_speech_def mock_synth_failed_def mock_synth_result_def Let_def
      split: pyval.splits option.splits)

lemma mock_call_record: "result_record (snd (mock_call E c b))"
  by (cases c)
    (simp_all add: mock_load_model_record mock_synthesize_speech_record mock_get_model_info_def
      mock_unload_model_def mock_list_available_models_def)


lemma py_eq_str: "py_eq v (PStr X) \<longleftrightarrow> v = PStr X"
  by (cases v) (auto simp: py_eq_def)

section \<open>The example bridge, evaluated\<close>

lemma init_bridge_fields:
  "tts_model (init_bridge E) = None" "current_model_path (init_bridge E) = PNone"
  "model_info (init_bridge E) = []"
  by (simp_all add: init_bridge_def)


lemma example_load_result:
  "snd (load_model example_env (PStr ''tts_models/bn/x'') PNone PNone (PBool True)
          (empty_world, init_bridge example_env)) =
     [(''success'', PBool True), (''message'', PStr ''Model loaded successfully on cpu''),
      (''model_info'', PDict example_info)]"
  by (simp add: load_model_def acquire_def example_env_def init_bridge_def
      empty_world_def log_event_def real_model_info_def example_info_def
      basename_def py_eq_def Let_def)

lemma example_bind_load:
  "bind_load_model (PDict [(''model_path'', PStr ''tts_models/bn/x'')]) =
     Some (LoadModel (PStr ''tts_models/bn/x'') PNone PNone (PBool True))"
  by (simp add: bind_load_model_def accepts_def dict_get_default_def)


lemma deep_text_length: "length deep_text = 1000"
  by (simp add: deep_text_def)

lemma not_deep: "length l < 1000 \<Longrightarrow> l \<noteq> deep_text"
  using deep_text_length by auto











lemma example_strip_number:
  \<open>strip number_line = ''{"id": "3", "method": "load_model", "params": {"model_path": 5}}''\<close>
  by (simp add: number_line_def strip_def is_space_def)

lemma example_loads_number:
  \<open>json_loads example_env ''{"id": "3", "method": "load_model", "params": {"model_path": 5}}''
     = Parsed number_request\<close>
  by (simp add: example_env_def example_json_loads_def not_deep)

section \<open>The dispatch and the response envelope\<close>

lemma response_carries: "result_record res \<Longrightarrow> carries (response rid res) res"
  unfolding result_record_def carries_def
  by (cases "map_of res ''success''")
     (auto simp: response_def dict_get_default_def dict_get_def)

lemma carries_envelope: "carries r res \<Longrightarrow> envelope r"
  by (auto simp: carries_def envelope_def split: if_splits)

lemma failure_envelopes:
  "envelope (unexpected_error E rid e)" "envelope (fatal_error E e)" "envelope (parse_error msg)"
  by (simp_all add: envelope_def unexpected_error_def fatal_error_def parse_error_def)

lemma process_request_bound:
  assumes "route exec E (dict_get_default kv ''method'' (PStr [])) (dict_get_default kv ''params'' (PDict [])) st
           = Returned (fst (exec c st)) (snd (exec c st))"
  shows "process_request exec E (PDict kv) st = answer exec kv c st"
  using assms by (simp add: process_request_def answer_def Let_def)

lemma route_no_args:
  "route exec E (PStr ''get_model_info'') params st =
     Returned (fst (exec GetModelInfo st)) (snd (exec GetModelInfo st))"
  "route exec E (PStr ''unload_model'') params st =
     Returned (fst (exec UnloadModel st)) (snd (exec UnloadModel st))"
  "route exec E (PStr ''list_available_models'') params st =
     Returned (fst (exec ListAvailableModels st)) (snd (exec ListAvailableModels st))"
  by (simp_all add: route_def invoke_def)

lemma route_load:
  "bind_load_model params = Some c \<Longrightarrow>
     route exec E (PStr ''load_model'') params st = Returned (fst (exec c st)) (snd (exec c st))"
  "bind_load_model params = None \<Longrightarrow>
     route exec E (PStr ''load_model'') params st =
       Raised (Exn ''TypeError'' (kwargs_error E ''load_model'' params))"
  by (simp_all add: route_def invoke_def)

lemma route_synthesize:
  "bind_synthesize_speech params = Some c \<Longrightarrow>
     route exec E (PStr ''synthesize_speech'') params st =
       Returned (fst (exec c st)) (snd (exec c st))"
  "bind_synthesize_speech params = None \<Longrightarrow>
     route exec E (PStr ''synthesize_speech'') params st =
       Raised (Exn ''TypeError'' (kwargs_error E ''synthesize_speech'' params))"
  by (simp_all add: route_def invoke_def)

lemma route_unknown:
  "method \<noteq> PStr ''load_model'' \<Longrightarrow> method \<noteq> PStr ''synthesize_speech'' \<Longrightarrow>
   method \<noteq> PStr ''get_model_info'' \<Longrightarrow> method \<noteq> PStr ''unload_model'' \<Longrightarrow>
   method \<noteq> PStr ''list_available_models'' \<Longrightarrow>
     route exec E method params st =
       Returned st [(''success'', PBool False),
                    (''error'', PStr (''Unknown method: '' @ format_value E method))]"
  by (simp add: route_def)


lemma bind_load_model_eq:
  "bind_load_model (PDict pkv) =
     (if accepts [''model_path'', ''config_path'', ''speaker_wav'', ''use_gpu''] ''model_path'' pkv
      then Some (LoadModel (dict_get pkv ''model_path'')
                   (dict_get_default pkv ''config_path'' PNone)
                   (dict_get_default pkv ''speaker_wav'' PNone)
                   (dict_get_default pkv ''use_gpu'' (PBool True)))
      else None)"
  "\<not> is_mapping params \<Longrightarrow> bind_load_model params = None"
  by (cases params; simp add: bind_load_model_def)+

lemma bind_synthesize_speech_eq:
  "bind_synthesize_speech (PDict pkv) =
     (if accepts [''text'', ''speaker_wav'', ''language'', ''speed''] ''text'' pkv
      then Some (SynthesizeSpeech (dict_get pkv ''text'')
                   (dict_get_default pkv ''speaker_wav'' PNone)
                   (dict_get_default pkv ''language'' (PStr ''bn''))
                   (dict_get_default pkv ''speed'' (PFloat 1)))
      else None)"
  "\<not> is_mapping params \<Longrightarrow> bind_synthesize_speech params = None"
  by (cases params; simp add: bind_synthesize_speech_def)+

lemma process_request_raised:
  assumes "route exec E (dict_get_default kv ''method'' (PStr [])) (dict_get_default kv ''params'' (PDict [])) st
           = Raised e"
  shows "process_request exec E (PDict kv) st =
           Emit st (Some (PDict kv)) (unexpected_error E (dict_get_default kv ''id'' (PStr ''unknown'')) e)"
  using assms by (simp add: process_request_def Let_def)

lemma process_request_unknown:
  assumes "mname = dict_get_default kv ''method'' (PStr [])"
    and "mname \<noteq> PStr ''load_model''" "mname \<noteq> PStr ''synthesize_speech''"
    and "mname \<noteq> PStr ''get_model_info''" "mname \<noteq> PStr ''unload_model''"
    and "mname \<noteq> PStr ''list_available_models''"
  shows "process_request exec E (PDict kv) st =
           Emit st (Some (PDict kv))
             (response (dict_get_default kv ''id'' (PStr ''unknown''))
                [(''success'', PBool False),
                 (''error'', PStr (''Unknown method: '' @ format_value E mname))])"
  using assms by (simp add: process_request_def Let_def route_unknown)

lemma process_request_not_object:
  "\<not> is_mapping request \<Longrightarrow>
     process_request exec E request st = Fatal (fatal_error E (no_get request))"
  by (cases request) (simp_all add: process_request_def)

text \<open>
  C5. The dispatch on a parsed request, for any bridge: when the request names one of the
  five methods and its parameters bind to the call \<open>c\<close>, the loop prints the response
  built from the request's id and the record the call returns, and goes on in the state
  the call leaves; when binding raises, it prints the response of the inner handler; a
  method name outside the five gets the response built from the unknown-method record; a
  request that is not an object ends the loop with the response of the outer handler.
  The two binders take every value as it is passed and the signature's defaults
  otherwise. In the real bridge and in the mock, the response built from any call's
  record carries it: with success, \<open>result\<close> is the record itself and \<open>error\<close> is null;
  with failure, \<open>result\<close> is null and \<open>error\<close> is the record's \<open>error\<close> entry, a
  string. So every response has a mapping as \<open>result\<close> exactly when \<open>success\<close> is true,
  and a string as \<open>error\<close> exactly when it is false; this holds for the responses of the
  two handlers as well.
\<close>

theorem response_shape:
  assumes "mname = dict_get_default kv ''method'' (PStr [])"
    and "params = dict_get_default kv ''params'' (PDict [])"
    and "rid = dict_get_default kv ''id'' (PStr ''unknown'')"
  shows
  "(mname = PStr ''load_model'' \<and> bind_load_model params = Some c \<longrightarrow>
      process_request exec E (PDict kv) st = answer exec kv c st) \<and>
   (mname = PStr ''load_model'' \<and> bind_load_model params = None \<longrightarrow>
      process_request exec E (PDict kv) st =
        Emit st (Some (PDict kv))
          (unexpected_error E rid (Exn ''TypeError'' (kwargs_error E ''load_model'' params)))) \<and>
   (mname = PStr ''synthesize_speech'' \<and> bind_synthesize_speech params = Some c \<longrightarrow>
      process_request exec E (PDict kv) st = answer exec kv c st) \<and>
   (mname = PStr ''synthesize_speech'' \<and> bind_synthesize_speech params = None \<longrightarrow>
      process_request exec E (PDict kv) st =
        Emit st (Some (PDict kv))
          (unexpected_error E rid (Exn ''TypeError'' (kwargs_error E ''synthesize_speech'' params)))) \<and>
   (mname = PStr ''get_model_info'' \<longrightarrow>
      process_request exec E (PDict kv) st = answer exec kv GetModelInfo st) \<and>
   (mname = PStr ''unload_model'' \<longrightarrow>
      process_request exec E (PDict kv) st = answer exec kv UnloadModel st) \<and>
   (mname = PStr ''list_available_models'' \<longrightarrow>
      process_request exec E (PDict kv) st = answer exec kv ListAvailableModels st) \<and>
   (mname \<noteq> PStr ''load_model'' \<and> mname \<noteq> PStr ''synthesize_speech'' \<and>
    mname \<noteq> PStr ''get_model_info'' \<and> mname \<noteq> PStr ''unload_model'' \<and>
    mname \<noteq> PStr ''list_available_models'' \<longrightarrow>
      process_request exec E (PDict kv) st =
        Emit st (Some (PDict kv))
          (response rid [(''success'', PBool False),
                         (''error'', PStr (''Unknown method: '' @ format_value E mname))])) \<and>
   (\<not> is_mapping request \<longrightarrow>
      process_request exec E request st = Fatal (fatal_error E (no_get request))) \<and>
   bind_load_model (PDict pkv) =
     (if accepts [''model_path'', ''config_path'', ''speaker_wav'', ''use_gpu''] ''model_path'' pkv
      then Some (LoadModel (dict_get pkv ''model_path'')
                   (dict_get_default pkv ''config_path'' PNone)
                   (dict_get_default pkv ''speaker_wav'' PNone)
                   (dict_get_default pkv ''use_gpu'' (PBool True)))
      else None) \<and>
   bind_synthesize_speech (PDict pkv) =
     (if accepts [''text'', ''speaker_wav'', ''language'', ''speed''] ''text'' pkv
      then Some (SynthesizeSpeech (dict_get pkv ''text'')
                   (dict_get_default pkv ''speaker_wav'' PNone)
                   (dict_get_default pkv ''language'' (PStr ''bn''))
                   (dict_get_default pkv ''speed'' (PFloat 1)))
      else None) \<and>
   (\<not> is_mapping params \<longrightarrow>
      bind_load_model params = None \<and> bind_synthesize_speech params = None) \<and>
   carries (response rid (snd (real_call E c s))) (snd (real_call E c s)) \<and>
   carries (response rid (snd (mock_call E c b))) (snd (mock_call E c b)) \<and>
   carries (response rid [(''success'', PBool False),
                          (''error'', PStr (''Unknown method: '' @ format_value E mname))])
     [(''success'', PBool False),
      (''error'', PStr (''Unknown method: '' @ format_value E mname))] \<and>
   envelope (response rid (snd (real_call E c s))) \<and>
   envelope (response rid (snd (mock_call E c b))) \<and>
   envelope (unexpected_error E rid e) \<and>
   envelope (fatal_error E e)"
proof -
  have real: "carries (response rid (snd (real_call E c s))) (snd (real_call E c s))"
    by (rule response_carries [OF real_call_record])
  have mock: "carries (response rid (snd (mock_call E c b))) (snd (mock_call E c b))"
    by (rule response_carries [OF mock_call_record])
  have unknown: "carries (response rid [(''success'', PBool False),
                          (''error'', PStr (''Unknown method: '' @ format_value E mname))])
     [(''success'', PBool False),
      (''error'', PStr (''Unknown method: '' @ format_value E mname))]"
    by (rule response_carries) simp
  have m: "dict_get_default kv ''method'' (PStr []) = mname"
    and p: "dict_get_default kv ''params'' (PDict []) = params"
    and r: "dict_get_default kv ''id'' (PStr ''unknown'') = rid"
    using assms by simp_all
  have routed: "\<And>c. route exec E mname params st = Returned (fst (exec c st)) (snd (exec c st))
      \<Longrightarrow> process_request exec E (PDict kv) st = answer exec kv c st"
    using process_request_bound [of exec E kv st] by (simp add: m p)
  have raised: "\<And>e. route exec E mname params st = Raised e
      \<Longrightarrow> process_request exec E (PDict kv) st = Emit st (Some (PDict kv)) (unexpected_error E rid e)"
    using process_request_raised [of exec E kv st] by (simp add: m p r)
  have unk: "mname \<noteq> PStr ''load_model'' \<and> mname \<noteq> PStr ''synthesize_speech'' \<and>
    mname \<noteq> PStr ''get_model_info'' \<and> mname \<noteq> PStr ''unload_model'' \<and>
    mname \<noteq> PStr ''list_available_models'' \<longrightarrow>
      process_request exec E (PDict kv) st =
        Emit st (Some (PDict kv))
          (response rid [(''success'', PBool False),
                         (''error'', PStr (''Unknown method: '' @ format_value E mname))])"
    using process_request_unknown [of mname kv exec E st] by (simp add: m r)
  show ?thesis
    using real mock unknown unk carries_envelope [OF real] carries_envelope [OF mock]
    by (auto simp: routed raised route_no_args route_load route_synthesize
        process_request_not_object bind_load_model_eq bind_synthesize_speech_eq
        failure_envelopes)
qed


text \<open>
  On the freshly started real bridge: the request to load \<open>tts_models/bn/x\<close> is answered
  with success and the record returned by \<open>load_model\<close> as \<open>result\<close>, and the bridge is
  then loaded; the request \<open>get_model_info\<close> is answered with the failure's message and
  no result.
\<close>

theorem response_shape_witness:
  "dict_get_default [(''id'', PStr ''2''), (''method'', PStr ''load_model''),
      (''params'', PDict [(''model_path'', PStr ''tts_models/bn/x'')])] ''method'' (PStr [])
     = PStr ''load_model'' \<and>
   bind_load_model (PDict [(''model_path'', PStr ''tts_models/bn/x'')]) =
     Some (LoadModel (PStr ''tts_models/bn/x'') PNone PNone (PBool True)) \<and>
   process_request (real_call example_env) example_env load_request
       (empty_world, init_bridge example_env) =
     Emit example_loaded (Some load_request)
       [(''id'', PStr ''2''), (''success'', PBool True),
        (''result'', PDict [(''success'', PBool True),
                            (''message'', PStr ''Model loaded successfully on cpu''),
                            (''model_info'', PDict example_info)]),
        (''error'', PNone)] \<and>
   process_request (real_call example_env) example_env info_request
       (empty_world, init_bridge example_env) =
     Emit (empty_world, init_bridge example_env) (Some info_request)
       [(''id'', PStr ''1''), (''success'', PBool False), (''result'', PNone),
        (''error'', PStr ''No model loaded'')]"
proof -
  have load:
    "process_request (real_call example_env) example_env
       (PDict [(''id'', PStr ''2''), (''method'', PStr ''load_model''),
               (''params'', PDict [(''model_path'', PStr ''tts_models/bn/x'')])])
       (empty_world, init_bridge example_env) =
     answer (real_call example_env)
       [(''id'', PStr ''2''), (''method'', PStr ''load_model''),
        (''params'', PDict [(''model_path'', PStr ''tts_models/bn/x'')])]
       (LoadModel (PStr ''tts_models/bn/x'') PNone PNone (PBool True))
       (empty_world, init_bridge example_env)"
    using response_shape [where mname = "PStr ''load_model''"
        and kv = "[(''id'', PStr ''2''), (''method'', PStr ''load_model''),
                   (''params'', PDict [(''model_path'', PStr ''tts_models/bn/x'')])]"
        and params = "PDict [(''model_path'', PStr ''tts_models/bn/x'')]"
        and rid = "PStr ''2''"
        and c = "LoadModel (PStr ''tts_models/bn/x'') PNone PNone (PBool True)"
        and exec = "real_call example_env" and E = example_env
        and st = "(empty_world, init_bridge example_env)"]
      example_bind_load
    by (simp add: dict_get_default_def)
  have info:
    "process_request (real_call example_env) example_env
       (PDict [(''id'', PStr ''1''), (''method'', PStr ''get_model_info'')])
       (empty_world, init_bridge example_env) =
     answer (real_call example_env)
       [(''id'', PStr ''1''), (''method'', PStr ''get_model_info'')]
       GetModelInfo (empty_world, init_bridge example_env)"
    using response_shape [where mname = "PStr ''get_model_info''"
        and kv = "[(''id'', PStr ''1''), (''method'', PStr ''get_model_info'')]"
        and params = "PDict []" and rid = "PStr ''1''"
        and exec = "real_call example_env" and E = example_env
        and st = "(empty_world, init_bridge example_env)"]
    by (simp add: dict_get_default_def)
  show ?thesis
    using load info
    by (simp add: load_request_def info_request_def answer_def example_load_result
        example_bind_load example_loaded_def [symmetric] response_def dict_get_default_def
        get_model_info_def init_bridge_fields)
qed

section \<open>The request loop on malformed and blank lines\<close>










section \<open>The temporary file of a synthesis\<close>







section \<open>The invariant of the model state\<close>

text \<open>
  The real bridge keeps the invariant: \<open>load_model\<close> assigns its three fields only after
  the engine has returned a model, and \<open>unload_model\<close> clears the three together.
\<close>

lemma load_model_ok:
  "model_state_ok (snd s) \<Longrightarrow> model_state_ok (snd (fst (load_model E p c sw g s)))"
  by (simp add: load_model_def acquire_def model_state_ok_def real_model_info_def Let_def
      split: sum.splits option.splits pyval.splits bool.splits)

lemma synthesize_speech_bridge:
  "snd (fst (synthesize_speech E t sw l sp s)) = snd s"
  by (simp add: synthesize_speech_def Let_def split: sum.splits option.splits)

lemma unload_model_ok:
  "model_state_ok (snd s) \<Longrightarrow> model_state_ok (snd (fst (unload_model E s)))"
  by (cases "tts_model (snd s)")
     (simp_all add: unload_model_def model_state_ok_def Let_def split: option.splits)

lemma real_call_ok:
  assumes "model_state_ok (snd s)"
  shows "model_state_ok (snd (fst (real_call E c s)))"
proof (cases c)
  case (LoadModel p cf sw g)
  with assms show ?thesis by (simp add: load_model_ok)
next
  case (SynthesizeSpeech t sw l sp)
  with assms show ?thesis by (simp add: synthesize_speech_bridge)
next
  case GetModelInfo
  with assms show ?thesis by (simp add: get_model_info_def)
next
  case UnloadModel
  with assms show ?thesis by (simp add: unload_model_ok)
next
  case ListAvailableModels
  with assms show ?thesis by (simp add: list_available_models_def split: sum.splits)
qed

lemma real_calls_ok:
  "model_state_ok (snd s) \<Longrightarrow> model_state_ok (snd (real_calls E s cs))"
  by (induction cs arbitrary: s) (simp_all add: real_call_ok)

lemma real_bridge_invariant: "model_state_ok (snd (real_calls E (w, init_bridge E) cs))"
  by (rule real_calls_ok) (simp add: model_state_ok_def init_bridge_def)


text \<open>
  The mock does not: its \<open>load_model\<close> assigns \<open>current_model_path\<close> before it builds
  \<open>model_info\<close>, inside a \<open>try\<close> whose handler returns the failure without undoing the
  assignment.
\<close>

lemma example_number_load:
  "mock_load_model example_env (PInt 5) PNone PNone (PBool True) init_mock =
     (\<lparr>mock_current_model_path = PInt 5, mock_model_info = [], mock_device = ''cpu''\<rparr>,
      mock_load_failed example_env
        (Exn ''TypeError'' ''expected str, bytes or os.PathLike object, not int''))"
  by (simp add: mock_load_model_def init_mock_def py_eq_def)

lemma example_bind_number:
  "bind_load_model (PDict [(''model_path'', PInt 5)]) =
     Some (LoadModel (PInt 5) PNone PNone (PBool True))"
  by (simp add: bind_load_model_def accepts_def dict_get_default_def)

text \<open>
  C1 fails on the mock. The request \<open>load_model\<close> with the number 5 as \<open>model_path\<close>,
  sent to the freshly started mock, is answered with a failure, and leaves
  \<open>current_model_path\<close> set to 5 with \<open>model_info\<close> empty: the invariant holds before
  the call and not after it. \<open>get_model_info\<close> then reports success with an empty
  \<open>model_info\<close>.
\<close>

theorem mock_load_half_updated:
  "mock_state_ok init_mock \<and>
   request_loop (mock_call example_env) example_env init_mock None [number_line] =
     ([[(''id'', PStr ''3''), (''success'', PBool False), (''result'', PNone),
        (''error'', PStr (''Failed to load mock model: ''
                          @ ''expected str, bytes or os.PathLike object, not int''))]],
      \<lparr>mock_current_model_path = PInt 5, mock_model_info = [], mock_device = ''cpu''\<rparr>,
      EndOfInput) \<and>
   \<not> mock_state_ok
       \<lparr>mock_current_model_path = PInt 5, mock_model_info = [], mock_device = ''cpu''\<rparr> \<and>
   mock_get_model_info
       \<lparr>mock_current_model_path = PInt 5, mock_model_info = [], mock_device = ''cpu''\<rparr> =
     (\<lparr>mock_current_model_path = PInt 5, mock_model_info = [], mock_device = ''cpu''\<rparr>,
      [(''success'', PBool True), (''model_info'', PDict [])])"
proof -
  have "mock_state_ok init_mock"
    by (simp add: mock_state_ok_def init_mock_def)
  then show ?thesis
    by (simp add: handle_line_def example_strip_number example_loads_number process_request_def
        number_request_def route_def invoke_def example_bind_number example_number_load
        dict_get_default_def response_def mock_load_failed_def mock_state_ok_def
        mock_get_model_info_def Let_def)
qed

section \<open>The guard on an unloaded bridge\<close>

text \<open>
  On the real bridge the guard is the first statement of \<open>get_model_info\<close> and of
  \<open>synthesize_speech\<close>: on an unloaded bridge both return the failure and leave the world
  as it was (no file is created, the engine is not called). A load that reports success
  has stored the model, so \<open>get_model_info\<close> succeeds after it.
\<close>

lemma real_unloaded_guard:
  "tts_model (snd s) = None \<Longrightarrow>
     get_model_info s = (s, [(''success'', PBool False), (''error'', PStr ''No model loaded'')]) \<and>
     synthesize_speech E t sw l sp s =
       (s, [(''success'', PBool False),
            (''error'', PStr ''No model loaded. Please load a model first.'')])"
  by (simp add: get_model_info_def synthesize_speech_def)

lemma real_loaded_after_success:
  "dict_get (snd (load_model E p c sw g s)) ''success'' = PBool True \<Longrightarrow>
     tts_model (snd (fst (load_model E p c sw g s))) \<noteq> None \<and>
     get_model_info (fst (load_model E p c sw g s)) =
       (fst (load_model E p c sw g s),
        [(''success'', PBool True),
         (''model_info'', PDict (model_info (snd (fst (load_model E p c sw g s)))))])"
  by (auto simp: load_model_def acquire_def load_failed_def get_model_info_def Let_def
      split: sum.splits option.splits pyval.splits bool.splits if_splits)

text \<open>
  C3 fails on the mock. Its \<open>load_model\<close> accepts the empty string as \<open>model_path\<close>
  and reports success, while \<open>get_model_info\<close> and \<open>synthesize_speech\<close> test
  \<open>not self.current_model_path\<close>, which the empty string satisfies: after the successful
  load both answer that no model is loaded. The same happens with \<open>model_path\<close> null on
  the freshly started mock, which answers \<open>Model already loaded\<close>, since
  \<open>None == None\<close>. The real bridge refuses both paths.
\<close>

theorem mock_empty_path_not_loaded:
  "mock_load_model example_env (PStr []) PNone PNone (PBool True) init_mock =
     (\<lparr>mock_current_model_path = PStr [], mock_model_info = mock_info example_env [],
       mock_device = ''cpu''\<rparr>,
      [(''success'', PBool True),
       (''message'', PStr ''Mock model loaded successfully on cpu''),
       (''model_info'', PDict (mock_info example_env []))]) \<and>
   snd (mock_get_model_info
          (fst (mock_load_model example_env (PStr []) PNone PNone (PBool True) init_mock))) =
     [(''success'', PBool False), (''error'', PStr ''No model loaded'')] \<and>
   snd (mock_synthesize_speech example_env (PStr ''hello'') PNone (PStr ''bn'') (PFloat 1)
          (fst (mock_load_model example_env (PStr []) PNone PNone (PBool True) init_mock))) =
     [(''success'', PBool False),
      (''error'', PStr ''No model loaded. Please load a model first.'')] \<and>
   snd (mock_load_model example_env PNone PNone PNone (PBool True) init_mock) =
     [(''success'', PBool True), (''message'', PStr ''Model already loaded''),
      (''model_info'', PDict [])] \<and>
   snd (mock_get_model_info
          (fst (mock_load_model example_env PNone PNone PNone (PBool True) init_mock))) =
     [(''success'', PBool False), (''error'', PStr ''No model loaded'')]"
  by (simp add: mock_load_model_def init_mock_def py_eq_def mock_get_model_info_def
      mock_synthesize_speech_def Let_def)

end
